theory Spec2Isabelle
  imports Main "HOL-Library.Word"
begin

section \<open>The measurement session of the probe engine\<close>

text \<open>
  This theory embeds the session of the probe engine (package \<open>engine\<close>, the file that
  declares \<open>Session\<close>) and the tactics policies of package \<open>enginenetx\<close>, and states
  the properties the specification claims about them.

  Go values are translated as follows. A pointer that may be \<open>nil\<close> is an \<open>option\<close>.
  A Go result pair \<open>(value, error)\<close> is a pair of two options, because the code tests the
  two components separately. A method that mutates the session through its receiver takes
  the session and returns the updated one. The collaborators that live in other packages
  (the geolocation task, the tunnel package, the probe-services package, the platform name)
  are fields of an environment record; every theorem holds for every environment.
\<close>

subsection \<open>Errors and contexts\<close>

text \<open>
  The error values the session code produces itself are \<open>ErrAlreadyUsingProxy\<close> and
  \<open>ErrAllProbeServicesFailed\<close>. \<open>Canceled\<close> and \<open>DeadlineExceeded\<close> are the two values
  \<open>ctx.Err()\<close> takes on a finished context. \<open>OtherError\<close> stands for any error made by
  a collaborator. A nil-pointer dereference panics; the model returns it as the value
  \<open>PanicNilPointer\<close>.
\<close>

datatype error =
    Canceled
  | DeadlineExceeded
  | ErrAlreadyUsingProxy
  | ErrAllProbeServicesFailed
  | OtherError string
  | PanicNilPointer

text \<open>A context is observed by the session only through \<open>ctx.Err()\<close>.\<close>

datatype Context = Context (ctx_Err: "error option")

subsection \<open>Location results and the location accessors\<close>

text \<open>
  \<open>geolocate.Results\<close>, with the fields the accessors read. The two ASN fields have the Go
  type \<open>uint\<close>; the session never computes with them, so they are natural numbers.
\<close>

record geolocate_Results =
  ASN :: nat
  CountryCode :: string
  NetworkName :: string
  ProbeIP :: string
  ResolverASN :: nat
  ResolverIP :: string
  ResolverNetworkName :: string

text \<open>
  The compile-time defaults of package \<open>geolocate\<close>. The specification fixes the country
  code default to \<open>ZZ\<close>; the other defaults are declared outside the session file and
  are parameters.
\<close>

record geolocate_defaults =
  DefaultProbeASN :: nat
  DefaultProbeNetworkName :: string
  DefaultProbeIP :: string
  DefaultResolverASN :: nat
  DefaultResolverIP :: string
  DefaultResolverNetworkName :: string

definition DefaultProbeCC :: string where
  "DefaultProbeCC = ''ZZ''"

subsection \<open>Services, tunnels and the check-in types\<close>

text \<open>
  \<open>model.Service\<close> is declared outside the session file; the session only stores and
  forwards services. The fields are those the specification lists for a service endpoint.
\<close>

record Service =
  ServiceAddress :: string
  ServiceType :: string
  ServiceFront :: string

text \<open>A URL is kept as its text. A tunnel is observed through \<open>SOCKS5ProxyURL()\<close>,
  which returns a pointer and so may return \<open>nil\<close>.\<close>

type_synonym URL = string

record Tunnel =
  SOCKS5ProxyURL :: "URL option"

text \<open>
  \<open>model.CheckInConfig\<close>, with the fields \<open>CheckIn\<close> reads and writes. A Go slice is
  either \<open>nil\<close> or a list, and \<open>CheckIn\<close> tells the two apart, so \<open>CategoryCodes\<close> is
  an optional list.
\<close>

record CheckInConfigWebConnectivity =
  CategoryCodes :: "string list option"

record CheckInConfig =
  Platform :: string
  ProbeASN :: string
  ProbeCC :: string
  RunType :: string
  SoftwareName :: string
  SoftwareVersion :: string
  WebConnectivity :: CheckInConfigWebConnectivity

record CheckInInfo =
  URLs :: "string list"

text \<open>
  \<open>sessionProbeServicesClientForCheckIn\<close> is an interface with the single method
  \<open>CheckIn(ctx, config)\<close>; a client is that method.
\<close>

type_synonym client = "Context \<Rightarrow> CheckInConfig \<Rightarrow> CheckInInfo option \<times> error option"

text \<open>The outcome of benchmarking one probe service (\<open>probeservices.Candidate\<close>).
  \<open>Duration\<close> is a \<open>time.Duration\<close>, a count of nanoseconds.\<close>

record Candidate =
  Duration :: int
  Err :: "error option"
  Endpoint :: Service
  TestHelpers :: "string \<rightharpoonup> Service list"

subsection \<open>The session\<close>

text \<open>
  The fields of \<open>Session\<close> that the modelled methods read or write. The two mutexes are
  not fields of the model: every method runs to completion, and taking \<open>mu\<close> is
  recorded as an event (see below). \<open>queryProbeServicesCount\<close> is an atomic 64-bit
  counter. A test hook is an optional function; \<open>selectedProbeServiceHook\<close> returns
  nothing, so the model keeps only whether it is set.
\<close>

record Session =
  availableProbeServices :: "Service list"
  availableTestHelpers :: "string \<rightharpoonup> Service list"
  location :: "geolocate_Results option"
  proxyURL :: "URL option"
  queryProbeServicesCount :: "64 word"
  selectedProbeServiceHook :: bool
  selectedProbeService :: "Service option"
  softwareName :: string
  softwareVersion :: string
  tunnelName :: string
  tunnel :: "Tunnel option"
  testLookupLocationContext ::
    "(Context \<Rightarrow> geolocate_Results option \<times> error option) option"
  testMaybeLookupBackendsContext :: "(Context \<Rightarrow> error option) option"
  testMaybeLookupLocationContext :: "(Context \<Rightarrow> error option) option"
  testNewProbeServicesClientForCheckIn ::
    "(Context \<Rightarrow> client option \<times> error option) option"

text \<open>
  The collaborators of the session that are defined in other packages:
  \<^item> \<open>platform_Name\<close>: \<open>platform.Name()\<close>;
  \<^item> \<open>defaults\<close>: the default location values of package \<open>geolocate\<close>;
  \<^item> \<open>geolocate_Run\<close>: running the geolocation task that \<open>LookupLocationContext\<close>
    builds from the session;
  \<^item> \<open>tunnel_Start\<close>: \<open>tunnel.Start(ctx, Config{Name, Session})\<close>;
  \<^item> \<open>probeservices_Default\<close>: the default list of probe services;
  \<^item> \<open>probe\<close>: benchmarking one probe service directly, and \<open>circumvented_probe\<close>:
    benchmarking it with the circumvention tactic applied, when there is such a tactic;
  \<^item> \<open>probeservices_NewClient\<close>: \<open>probeservices.NewClient(session, service)\<close>.
\<close>

record env =
  platform_Name :: string
  defaults :: geolocate_defaults
  geolocate_Run :: "Session \<Rightarrow> Context \<Rightarrow> geolocate_Results option \<times> error option"
  tunnel_Start :: "Session \<Rightarrow> Context \<Rightarrow> string \<Rightarrow> Tunnel option \<times> error option"
  probeservices_Default :: "Service list"
  probe :: "Session \<Rightarrow> Context \<Rightarrow> Service \<Rightarrow> Candidate"
  circumvented_probe :: "(Session \<Rightarrow> Context \<Rightarrow> Service \<Rightarrow> Candidate) option"
  probeservices_NewClient :: "Session \<Rightarrow> Service \<Rightarrow> client option \<times> error option"

text \<open>
  What a method does besides returning is recorded as a list of events, in the order of the
  source: taking and releasing \<open>mu\<close>, and each call to a collaborator.
\<close>

datatype event =
    Lock_mu
  | Unlock_mu
  | LookupLocation
  | BenchmarkPass
  | ApplyCircumvention
  | Logger_Infof
  | SelectedProbeServiceHook
  | NewClient
  | ClientCheckIn

subsection \<open>The location accessors\<close>

definition Session_Platform :: "env \<Rightarrow> Session \<Rightarrow> string" where
  "Session_Platform e s = platform_Name e"

definition Session_ProbeASN :: "env \<Rightarrow> Session \<Rightarrow> nat" where
  "Session_ProbeASN e s =
     (let asn = DefaultProbeASN (defaults e) in
      case location s of None \<Rightarrow> asn | Some l \<Rightarrow> ASN l)"

definition Session_ProbeCC :: "Session \<Rightarrow> string" where
  "Session_ProbeCC s =
     (let cc = DefaultProbeCC in
      case location s of None \<Rightarrow> cc | Some l \<Rightarrow> CountryCode l)"

definition Session_ProbeNetworkName :: "env \<Rightarrow> Session \<Rightarrow> string" where
  "Session_ProbeNetworkName e s =
     (let nn = DefaultProbeNetworkName (defaults e) in
      case location s of None \<Rightarrow> nn | Some l \<Rightarrow> NetworkName l)"

definition Session_ProbeIP :: "env \<Rightarrow> Session \<Rightarrow> string" where
  "Session_ProbeIP e s =
     (let ip = DefaultProbeIP (defaults e) in
      case location s of None \<Rightarrow> ip | Some l \<Rightarrow> ProbeIP l)"

definition Session_ResolverASN :: "env \<Rightarrow> Session \<Rightarrow> nat" where
  "Session_ResolverASN e s =
     (let asn = DefaultResolverASN (defaults e) in
      case location s of None \<Rightarrow> asn | Some l \<Rightarrow> ResolverASN l)"

definition Session_ResolverIP :: "env \<Rightarrow> Session \<Rightarrow> string" where
  "Session_ResolverIP e s =
     (let ip = DefaultResolverIP (defaults e) in
      case location s of None \<Rightarrow> ip | Some l \<Rightarrow> ResolverIP l)"

definition Session_ResolverNetworkName :: "env \<Rightarrow> Session \<Rightarrow> string" where
  "Session_ResolverNetworkName e s =
     (let nn = DefaultResolverNetworkName (defaults e) in
      case location s of None \<Rightarrow> nn | Some l \<Rightarrow> ResolverNetworkName l)"

definition Session_SoftwareName :: "Session \<Rightarrow> string" where
  "Session_SoftwareName s = softwareName s"

definition Session_SoftwareVersion :: "Session \<Rightarrow> string" where
  "Session_SoftwareVersion s = softwareVersion s"

text \<open>
  \<open>fmt.Sprintf("AS%d", n)\<close> on an unsigned \<open>n\<close>: the decimal digits of \<open>n\<close>, most
  significant first, with no sign and no leading zero.
\<close>

fun decimal :: "nat \<Rightarrow> string" where
  "decimal n =
     (if n < 10 then [''0123456789'' ! n]
      else decimal (n div 10) @ [''0123456789'' ! (n mod 10)])"

declare decimal.simps [simp del]

definition Session_ProbeASNString :: "env \<Rightarrow> Session \<Rightarrow> string" where
  "Session_ProbeASNString e s = ''AS'' @ decimal (Session_ProbeASN e s)"

subsection \<open>Starting a tunnel\<close>


subsection \<open>Looking up the location\<close>

definition LookupLocationContext ::
  "env \<Rightarrow> Session \<Rightarrow> Context \<Rightarrow> geolocate_Results option \<times> error option" where
  "LookupLocationContext e s ctx = geolocate_Run e s ctx"

definition lookupLocationContext ::
  "env \<Rightarrow> Session \<Rightarrow> Context \<Rightarrow> geolocate_Results option \<times> error option" where
  "lookupLocationContext e s ctx =
     (case testLookupLocationContext s of
        Some hook \<Rightarrow> hook ctx
      | None \<Rightarrow> LookupLocationContext e s ctx)"

text \<open>
  The result is the returned error, the session after the call, and the events of the
  call. The pre-check on the context comes before \<open>mu\<close> is taken.
\<close>

definition MaybeLookupLocationContext ::
  "env \<Rightarrow> Session \<Rightarrow> Context \<Rightarrow> error option \<times> Session \<times> event list" where
  "MaybeLookupLocationContext e s ctx =
     (if ctx_Err ctx \<noteq> None then (ctx_Err ctx, s, [])
      else if location s = None then
        (case lookupLocationContext e s ctx of
           (_, Some err) \<Rightarrow> (Some err, s, [Lock_mu, LookupLocation, Unlock_mu])
         | (loc, None) \<Rightarrow> (None, s\<lparr>location := loc\<rparr>, [Lock_mu, LookupLocation, Unlock_mu]))
      else (None, s, [Lock_mu, Unlock_mu]))"

definition maybeLookupLocationContext ::
  "env \<Rightarrow> Session \<Rightarrow> Context \<Rightarrow> error option \<times> Session \<times> event list" where
  "maybeLookupLocationContext e s ctx =
     (case testMaybeLookupLocationContext s of
        Some hook \<Rightarrow> (hook ctx, s, [])
      | None \<Rightarrow> MaybeLookupLocationContext e s ctx)"

subsection \<open>Selecting a probe service\<close>

text \<open>
  Modelled from the spec: \<open>probeservices.SelectBest\<close>, which is not in the session file.
  It keeps the candidates without an error and returns the one with the smallest duration,
  the earliest one among equals, or nothing when no candidate succeeded.
\<close>

definition SelectBest :: "Candidate list \<Rightarrow> Candidate option" where
  "SelectBest cs =
     (case filter (\<lambda>c. Err c = None) cs of
        [] \<Rightarrow> None
      | c # rest \<Rightarrow>
          Some (foldl (\<lambda>best x. if Duration x < Duration best then x else best) c rest))"

text \<open>
  Modelled from the spec: \<open>probeservices.TryAll\<close>, which is not in the session file.
  A pass benchmarks every candidate service. When the first pass has no successful
  candidate and a circumvention tactic is available, the tactic is applied once and the pass
  is repeated; the candidates of the last pass are returned.
\<close>

definition TryAll ::
  "env \<Rightarrow> Context \<Rightarrow> Session \<Rightarrow> Service list \<Rightarrow> Candidate list \<times> event list" where
  "TryAll e ctx s services =
     (let first = map (probe e s ctx) services in
      case SelectBest first of
        Some _ \<Rightarrow> (first, [BenchmarkPass])
      | None \<Rightarrow>
          (case circumvented_probe e of
             None \<Rightarrow> (first, [BenchmarkPass])
           | Some p \<Rightarrow>
               (map (p s ctx) services, [BenchmarkPass, ApplyCircumvention, BenchmarkPass])))"

definition getAvailableProbeServicesUnlocked :: "env \<Rightarrow> Session \<Rightarrow> Service list" where
  "getAvailableProbeServicesUnlocked e s =
     (if length (availableProbeServices s) > 0 then availableProbeServices s
      else probeservices_Default e)"

definition MaybeLookupBackendsContext ::
  "env \<Rightarrow> Session \<Rightarrow> Context \<Rightarrow> error option \<times> Session \<times> event list" where
  "MaybeLookupBackendsContext e s ctx =
     (if selectedProbeService s \<noteq> None then (None, s, [Lock_mu, Unlock_mu])
      else
        (let s1 = s\<lparr>queryProbeServicesCount := queryProbeServicesCount s + 1\<rparr>;
             (candidates, evs) = TryAll e ctx s1 (getAvailableProbeServicesUnlocked e s1)
         in case SelectBest candidates of
              None \<Rightarrow> (Some ErrAllProbeServicesFailed, s1, Lock_mu # evs @ [Unlock_mu])
            | Some selected \<Rightarrow>
                (None,
                 s1\<lparr>selectedProbeService := Some (Endpoint selected),
                    availableTestHelpers := TestHelpers selected\<rparr>,
                 Lock_mu # evs @ [Logger_Infof, Unlock_mu])))"

definition maybeLookupBackendsContext ::
  "env \<Rightarrow> Session \<Rightarrow> Context \<Rightarrow> error option \<times> Session \<times> event list" where
  "maybeLookupBackendsContext e s ctx =
     (case testMaybeLookupBackendsContext s of
        Some hook \<Rightarrow> (hook ctx, s, [])
      | None \<Rightarrow> MaybeLookupBackendsContext e s ctx)"

subsection \<open>The probe-services client and the check-in\<close>

text \<open>
  \<open>NewProbeServicesClient\<close> dereferences \<open>selectedProbeService\<close>; with a backends hook
  that selects nothing the pointer is \<open>nil\<close> and the call panics.
\<close>

definition NewProbeServicesClient ::
  "env \<Rightarrow> Session \<Rightarrow> Context \<Rightarrow> (client option \<times> error option) \<times> Session \<times> event list" where
  "NewProbeServicesClient e s ctx =
     (if ctx_Err ctx \<noteq> None then ((None, ctx_Err ctx), s, [])
      else
        (case maybeLookupBackendsContext e s ctx of
           (Some err, s1, t1) \<Rightarrow> ((None, Some err), s1, t1)
         | (None, s1, t1) \<Rightarrow>
             (case maybeLookupLocationContext e s1 ctx of
                (Some err, s2, t2) \<Rightarrow> ((None, Some err), s2, t1 @ t2)
              | (None, s2, t2) \<Rightarrow>
                  (let t3 = (if selectedProbeServiceHook s2 then [SelectedProbeServiceHook]
                             else [])
                   in case selectedProbeService s2 of
                        None \<Rightarrow> ((None, Some PanicNilPointer), s2, t1 @ t2 @ t3)
                      | Some svc \<Rightarrow>
                          (probeservices_NewClient e s2 svc, s2,
                           t1 @ t2 @ t3 @ [NewClient])))))"

definition newProbeServicesClientForCheckIn ::
  "env \<Rightarrow> Session \<Rightarrow> Context \<Rightarrow> (client option \<times> error option) \<times> Session \<times> event list" where
  "newProbeServicesClientForCheckIn e s ctx =
     (case testNewProbeServicesClientForCheckIn s of
        Some hook \<Rightarrow> (hook ctx, s, [])
      | None \<Rightarrow>
          (case NewProbeServicesClient e s ctx of
             ((_, Some err), s1, t1) \<Rightarrow> ((None, Some err), s1, t1)
           | ((cl, None), s1, t1) \<Rightarrow> ((cl, None), s1, t1)))"

text \<open>
  The seven assignments of \<open>CheckIn\<close> that fill the empty fields of the configuration, in
  the order of the source. Each reads the session and writes one field.
\<close>

definition CheckIn_fill :: "env \<Rightarrow> Session \<Rightarrow> CheckInConfig \<Rightarrow> CheckInConfig" where
  "CheckIn_fill e s config =
     (let c1 = (if Platform config = [] then config\<lparr>Platform := Session_Platform e s\<rparr>
                else config);
          c2 = (if ProbeASN c1 = [] then c1\<lparr>ProbeASN := Session_ProbeASNString e s\<rparr>
                else c1);
          c3 = (if ProbeCC c2 = [] then c2\<lparr>ProbeCC := Session_ProbeCC s\<rparr> else c2);
          c4 = (if RunType c3 = [] then c3\<lparr>RunType := ''timed''\<rparr> else c3);
          c5 = (if SoftwareName c4 = [] then c4\<lparr>SoftwareName := Session_SoftwareName s\<rparr>
                else c4);
          c6 = (if SoftwareVersion c5 = []
                then c5\<lparr>SoftwareVersion := Session_SoftwareVersion s\<rparr> else c5);
          c7 = (if CategoryCodes (WebConnectivity c6) = None
                then c6\<lparr>WebConnectivity := (WebConnectivity c6)\<lparr>CategoryCodes := Some []\<rparr>\<rparr>
                else c6)
      in c7)"

text \<open>
  \<open>CheckIn\<close> receives a pointer to the configuration and writes through it. The model
  takes the configuration the pointer refers to (\<open>None\<close> for a \<open>nil\<close> pointer) and
  returns, next to the result pair, the session and the events, the configuration the
  caller sees afterwards. A \<open>nil\<close> configuration or a \<open>nil\<close> client is dereferenced
  only after both lookups have succeeded.
\<close>

definition CheckIn ::
  "env \<Rightarrow> Session \<Rightarrow> Context \<Rightarrow> CheckInConfig option \<Rightarrow>
   (CheckInInfo option \<times> error option) \<times> Session \<times> CheckInConfig option \<times> event list" where
  "CheckIn e s ctx config =
     (case maybeLookupLocationContext e s ctx of
        (Some err, s1, t1) \<Rightarrow> ((None, Some err), s1, config, t1)
      | (None, s1, t1) \<Rightarrow>
          (case newProbeServicesClientForCheckIn e s1 ctx of
             ((_, Some err), s2, t2) \<Rightarrow> ((None, Some err), s2, config, t1 @ t2)
           | ((cl, None), s2, t2) \<Rightarrow>
               (case config of
                  None \<Rightarrow> ((None, Some PanicNilPointer), s2, None, t1 @ t2)
                | Some c \<Rightarrow>
                    (let c' = CheckIn_fill e s2 c in
                     case cl of
                       None \<Rightarrow> ((None, Some PanicNilPointer), s2, Some c', t1 @ t2)
                     | Some cli \<Rightarrow> (cli ctx c', s2, Some c', t1 @ t2 @ [ClientCheckIn])))))"

section \<open>The tactics policies\<close>

text \<open>
  The repository holds the test of the bridges policy but neither \<open>bridgesPolicy\<close> nor
  \<open>dnsPolicy\<close> themselves, so both are taken from the specification. A stream of tactics
  is finite and read once, in order; it is the list of the tactics in the order they are
  delivered, for a context that is not cancelled while the stream is read.
\<close>

record httpsDialerTactic =
  Address :: string
  InitialDelay :: int
  Port :: string
  SNI :: string
  VerifyHostname :: string

text \<open>The resolver capability: \<open>LookupHost\<close> gives the addresses of a domain or fails.\<close>

type_synonym Resolver = "string \<Rightarrow> error + string list"

text \<open>
  The compiled-in tables of the bridges policy. The specification names one bridge for
  \<open>api.ooni.io\<close>; the decoy names, the test-helper domains and the test-helper bridges are
  compiled-in lists it does not spell out, and they are parameters.
\<close>

definition bridgesAddrs :: "string list" where
  "bridgesAddrs = [''162.55.247.208'']"

record bridges_tables =
  bridgesDomains :: "string list"
  testHelpersDomains :: "string list"
  testHelpersAddrs :: "string list"

text \<open>
  Modelled from the spec: the bridge tactics of \<open>bridgesPolicy\<close>, the cross product of a
  set of bridge addresses and the decoy names, address first, each tactic verifying the
  requested domain and starting with no delay.
\<close>

definition bridgesTactics ::
  "string list \<Rightarrow> string list \<Rightarrow> string \<Rightarrow> string \<Rightarrow> httpsDialerTactic list" where
  "bridgesTactics addrs snis domain port =
     concat (map (\<lambda>addr. map (\<lambda>sni.
       \<lparr>Address = addr, InitialDelay = 0, Port = port, SNI = sni, VerifyHostname = domain\<rparr>)
       snis) addrs)"

text \<open>
  Modelled from the spec: \<open>LookupTactics\<close> of the two policies, \<open>dnsPolicy\<close> and
  \<open>bridgesPolicy\<close>. The DNS policy asks the resolver and emits one tactic for each address,
  or nothing when the resolver fails. The bridges policy emits the bridge tactics of a
  bridged or test-helper domain and then every tactic of its fallback; for any other domain
  it is its fallback.
\<close>

datatype policy = dnsPolicy Resolver | bridgesPolicy policy

fun LookupTactics ::
  "bridges_tables \<Rightarrow> policy \<Rightarrow> string \<Rightarrow> string \<Rightarrow> httpsDialerTactic list" where
  "LookupTactics T (dnsPolicy resolver) domain port =
     (case resolver domain of
        Inl err \<Rightarrow> []
      | Inr addrs \<Rightarrow>
          map (\<lambda>addr. \<lparr>Address = addr, InitialDelay = 0, Port = port, SNI = domain,
                       VerifyHostname = domain\<rparr>) addrs)"
| "LookupTactics T (bridgesPolicy fallback) domain port =
     (if domain = ''api.ooni.io'' then
        bridgesTactics bridgesAddrs (bridgesDomains T) domain port
          @ LookupTactics T fallback domain port
      else if domain \<in> set (testHelpersDomains T) then
        bridgesTactics (testHelpersAddrs T) (bridgesDomains T) domain port
          @ LookupTactics T fallback domain port
      else LookupTactics T fallback domain port)"

section \<open>Sample values\<close>

text \<open>
  A freshly created session, a location, a probe service and an environment. They are the
  concrete inputs at which the theorems below are instantiated. The sample environment
  knows the tunnel \<open>tor\<close>, starts no tunnel for the empty name, and reaches a probe
  service only with the circumvention tactic applied.
\<close>

definition sample_location :: geolocate_Results where
  "sample_location =
     \<lparr>ASN = 30722, CountryCode = ''IT'', NetworkName = ''Vodafone Italia S.p.A.'',
      ProbeIP = ''130.192.91.211'', ResolverASN = 15169, ResolverIP = ''8.8.8.8'',
      ResolverNetworkName = ''Google LLC''\<rparr>"

definition sample_service :: Service where
  "sample_service =
     \<lparr>ServiceAddress = ''https://api.ooni.io'', ServiceType = ''https'', ServiceFront = []\<rparr>"

definition sample_candidate :: "bool \<Rightarrow> Service \<Rightarrow> Candidate" where
  "sample_candidate ok svc =
     \<lparr>Duration = 80000000,
      Err = (if ok then None else Some (OtherError ''connection reset'')),
      Endpoint = svc, TestHelpers = Map.empty\<rparr>"

definition sample_client :: client where
  "sample_client ctx config = (None, Some (OtherError ''http: 500''))"

definition sample_env :: env where
  "sample_env =
     \<lparr>platform_Name = ''linux'',
      defaults = \<lparr>DefaultProbeASN = 0, DefaultProbeNetworkName = [],
                  DefaultProbeIP = ''127.0.0.1'', DefaultResolverASN = 0,
                  DefaultResolverIP = ''127.0.0.2'', DefaultResolverNetworkName = []\<rparr>,
      geolocate_Run = (\<lambda>s ctx. (Some sample_location, None)),
      tunnel_Start = (\<lambda>s ctx name.
        if name = [] then (None, None)
        else if name = ''tor''
          then (Some \<lparr>SOCKS5ProxyURL = Some ''socks5://127.0.0.1:9050''\<rparr>, None)
        else (None, Some (OtherError ''unsupported tunnel''))),
      probeservices_Default = [sample_service],
      probe = (\<lambda>s ctx. sample_candidate False),
      circumvented_probe = Some (\<lambda>s ctx. sample_candidate True),
      probeservices_NewClient = (\<lambda>s svc. (Some sample_client, None))\<rparr>"

definition sample_session :: Session where
  "sample_session =
     \<lparr>availableProbeServices = [], availableTestHelpers = Map.empty, location = None,
      proxyURL = None, queryProbeServicesCount = 0, selectedProbeServiceHook = False,
      selectedProbeService = None, softwareName = ''miniooni'',
      softwareVersion = ''0.1.0-dev'', tunnelName = [], tunnel = None,
      testLookupLocationContext = None, testMaybeLookupBackendsContext = None,
      testMaybeLookupLocationContext = None,
      testNewProbeServicesClientForCheckIn = None\<rparr>"





text \<open>
  A check-in configuration with four empty fields and no category codes, the session as it
  is after a location lookup and a selection of the probe service in the sample
  environment, and an environment without a circumvention tactic.
\<close>

definition sample_config :: CheckInConfig where
  "sample_config =
     \<lparr>Platform = [], ProbeASN = [], ProbeCC = ''US'', RunType = [],
      SoftwareName = ''ooniprobe-android'', SoftwareVersion = [],
      WebConnectivity = \<lparr>CategoryCodes = None\<rparr>\<rparr>"

definition sample_selected_session :: Session where
  "sample_selected_session =
     sample_session\<lparr>location := Some sample_location, queryProbeServicesCount := 1,
       selectedProbeService := Some sample_service, availableTestHelpers := Map.empty\<rparr>"

definition sample_blocked_env :: env where
  "sample_blocked_env = sample_env\<lparr>circumvented_probe := None\<rparr>"

text \<open>
  Tables of the bridges policy with two decoy names and one test helper, and a resolver
  that knows \<open>api.ooni.io\<close> and \<open>www.example.com\<close> and fails on every other domain.
\<close>

definition sample_tables :: bridges_tables where
  "sample_tables =
     \<lparr>bridgesDomains = [''www.example.org'', ''www.example.net''],
      testHelpersDomains = [''0.th.ooni.org''],
      testHelpersAddrs = [''164.92.180.7'']\<rparr>"

definition sample_resolver :: Resolver where
  "sample_resolver domain =
     (if domain = ''api.ooni.io'' then Inr [''130.192.91.211'']
      else if domain = ''www.example.com'' then Inr [''93.184.216.34'']
      else Inl (OtherError ''mocked error''))"

section \<open>Properties of the session\<close>

subsection \<open>The location accessors\<close>

lemmas accessor_defs =
  Session_ProbeASN_def Session_ProbeCC_def Session_ProbeNetworkName_def Session_ProbeIP_def
  Session_ResolverASN_def Session_ResolverIP_def Session_ResolverNetworkName_def

text \<open>
  Claim C8. On a session whose location is \<open>nil\<close> the accessors \<open>ProbeASN\<close>, \<open>ProbeCC\<close>,
  \<open>ProbeNetworkName\<close>, \<open>ProbeIP\<close>, \<open>ResolverASN\<close>, \<open>ResolverIP\<close> and
  \<open>ResolverNetworkName\<close> return the compile-time defaults, \<open>ZZ\<close> for the country code;
  on a session whose location is set they return the matching field of the cached location.
\<close>

theorem accessors_default_or_cached:
  "(location s = None \<longrightarrow>
      Session_ProbeASN e s = DefaultProbeASN (defaults e) \<and>
      Session_ProbeCC s = ''ZZ'' \<and>
      Session_ProbeNetworkName e s = DefaultProbeNetworkName (defaults e) \<and>
      Session_ProbeIP e s = DefaultProbeIP (defaults e) \<and>
      Session_ResolverASN e s = DefaultResolverASN (defaults e) \<and>
      Session_ResolverIP e s = DefaultResolverIP (defaults e) \<and>
      Session_ResolverNetworkName e s = DefaultResolverNetworkName (defaults e)) \<and>
   (\<forall>l. location s = Some l \<longrightarrow>
      Session_ProbeASN e s = ASN l \<and>
      Session_ProbeCC s = CountryCode l \<and>
      Session_ProbeNetworkName e s = NetworkName l \<and>
      Session_ProbeIP e s = ProbeIP l \<and>
      Session_ResolverASN e s = ResolverASN l \<and>
      Session_ResolverIP e s = ResolverIP l \<and>
      Session_ResolverNetworkName e s = ResolverNetworkName l)"
  by (simp add: accessor_defs DefaultProbeCC_def)

theorem accessors_default_or_cached_witness:
  "location sample_session = None \<and>
   Session_ProbeASN sample_env sample_session = 0 \<and>
   Session_ProbeCC sample_session = ''ZZ'' \<and>
   Session_ResolverIP sample_env sample_session = ''127.0.0.2'' \<and>
   location (sample_session\<lparr>location := Some sample_location\<rparr>) = Some sample_location \<and>
   Session_ProbeASN sample_env (sample_session\<lparr>location := Some sample_location\<rparr>) = 30722 \<and>
   Session_ProbeCC (sample_session\<lparr>location := Some sample_location\<rparr>) = ''IT'' \<and>
   Session_ResolverIP sample_env (sample_session\<lparr>location := Some sample_location\<rparr>)
     = ''8.8.8.8''"
  using accessors_default_or_cached [of sample_session sample_env]
    accessors_default_or_cached [of "sample_session\<lparr>location := Some sample_location\<rparr>" sample_env]
  by (simp add: sample_session_def sample_env_def sample_location_def)

subsection \<open>Looking up the location\<close>

text \<open>
  Claim C9. When the underlying location lookup fails, \<open>MaybeLookupLocationContext\<close>
  returns that error and leaves the session as it was, its location still \<open>nil\<close>; the
  failure is not cached, and the next call with a live context performs the lookup again.
  The lookup is made when the context is live and no location is cached.
\<close>

theorem lookup_failure_not_cached:
  assumes "ctx_Err ctx = None" and "location s = None"
    and "snd (lookupLocationContext e s ctx) = Some err"
  shows "MaybeLookupLocationContext e s ctx = (Some err, s, [Lock_mu, LookupLocation, Unlock_mu])
    \<and> location (fst (snd (MaybeLookupLocationContext e s ctx))) = None
    \<and> (\<forall>e' ctx'. ctx_Err ctx' = None \<longrightarrow>
          LookupLocation \<in> set (snd (snd (MaybeLookupLocationContext e'
             (fst (snd (MaybeLookupLocationContext e s ctx))) ctx'))))"
  using assms
  by (auto simp: MaybeLookupLocationContext_def split: prod.splits option.splits)

theorem lookup_failure_not_cached_witness:
  "ctx_Err (Context None) = None \<and> location sample_session = None \<and>
   snd (lookupLocationContext
          (sample_env\<lparr>geolocate_Run := (\<lambda>s ctx. (None, Some (OtherError ''timeout'')))\<rparr>)
          sample_session (Context None)) = Some (OtherError ''timeout'') \<and>
   MaybeLookupLocationContext
     (sample_env\<lparr>geolocate_Run := (\<lambda>s ctx. (None, Some (OtherError ''timeout'')))\<rparr>)
     sample_session (Context None)
     = (Some (OtherError ''timeout''), sample_session, [Lock_mu, LookupLocation, Unlock_mu])"
  using lookup_failure_not_cached
    [of "Context None" sample_session
        "sample_env\<lparr>geolocate_Run := (\<lambda>s ctx. (None, Some (OtherError ''timeout'')))\<rparr>"
        "OtherError ''timeout''"]
  by (simp add: lookupLocationContext_def LookupLocationContext_def sample_session_def
      sample_env_def)

text \<open>
  Claim C7 says that after a first call that succeeded and cached a location every later
  call returns \<open>nil\<close>. The pre-check on the context runs before the cache is consulted: a
  later call with a cancelled context returns the context's error.
\<close>

theorem second_lookup_cancelled_counterexample:
  "MaybeLookupLocationContext sample_env sample_session (Context None)
     = (None, sample_session\<lparr>location := Some sample_location\<rparr>,
        [Lock_mu, LookupLocation, Unlock_mu]) \<and>
   MaybeLookupLocationContext sample_env (sample_session\<lparr>location := Some sample_location\<rparr>)
       (Context (Some Canceled))
     = (Some Canceled, sample_session\<lparr>location := Some sample_location\<rparr>, []) \<and>
   Some Canceled \<noteq> (None :: error option)"
  by (simp add: MaybeLookupLocationContext_def lookupLocationContext_def
      LookupLocationContext_def sample_session_def sample_env_def)

text \<open>
  Claim C7, amended. After a first call that succeeded and cached a location, every later
  call leaves the session as it is and performs no lookup, so the location after it is the
  location after the first call; it returns \<open>nil\<close> when its context is live and the
  context's error when its context is cancelled.
\<close>

theorem cached_location_is_kept:
  assumes "MaybeLookupLocationContext e s ctx = (None, s1, t1)" and "location s1 \<noteq> None"
  shows "MaybeLookupLocationContext e' s1 ctx'
           = (ctx_Err ctx', s1, if ctx_Err ctx' = None then [Lock_mu, Unlock_mu] else [])
    \<and> location (fst (snd (MaybeLookupLocationContext e' s1 ctx'))) = location s1
    \<and> LookupLocation \<notin> set (snd (snd (MaybeLookupLocationContext e' s1 ctx')))"
  using assms(2) by (auto simp: MaybeLookupLocationContext_def)

theorem cached_location_is_kept_witness:
  "MaybeLookupLocationContext sample_env sample_session (Context None)
     = (None, sample_session\<lparr>location := Some sample_location\<rparr>,
        [Lock_mu, LookupLocation, Unlock_mu]) \<and>
   location (sample_session\<lparr>location := Some sample_location\<rparr>) \<noteq> None \<and>
   MaybeLookupLocationContext sample_env (sample_session\<lparr>location := Some sample_location\<rparr>)
       (Context None)
     = (None, sample_session\<lparr>location := Some sample_location\<rparr>, [Lock_mu, Unlock_mu])"
proof -
  have first: "MaybeLookupLocationContext sample_env sample_session (Context None)
     = (None, sample_session\<lparr>location := Some sample_location\<rparr>,
        [Lock_mu, LookupLocation, Unlock_mu])"
    by (simp add: MaybeLookupLocationContext_def lookupLocationContext_def
        LookupLocationContext_def sample_session_def sample_env_def)
  have cached: "location (sample_session\<lparr>location := Some sample_location\<rparr>) \<noteq> None"
    by simp
  show ?thesis
    using first cached
      cached_location_is_kept [OF first cached, of sample_env "Context None"]
    by simp
qed

subsection \<open>Cancelled contexts\<close>

text \<open>
  Claim C6 says that every operation that takes a context, \<open>MaybeLookupBackendsContext\<close>
  among them, returns the context's error at once when the context is cancelled at entry.
  \<open>MaybeLookupBackendsContext\<close> has no such pre-check: it takes \<open>mu\<close> first, and with a
  probe service already selected it returns \<open>nil\<close> for a cancelled context.
\<close>

theorem backends_no_precheck_counterexample:
  "ctx_Err (Context (Some Canceled)) = Some Canceled \<and>
   MaybeLookupBackendsContext sample_env
       (sample_session\<lparr>selectedProbeService := Some sample_service\<rparr>)
       (Context (Some Canceled))
     = (None, sample_session\<lparr>selectedProbeService := Some sample_service\<rparr>,
        [Lock_mu, Unlock_mu])"
  by (simp add: MaybeLookupBackendsContext_def)

text \<open>
  Claim C6, amended. When the context is cancelled at entry, \<open>MaybeLookupLocationContext\<close>
  and \<open>NewProbeServicesClient\<close> return the context's error at once, through an explicit
  pre-check, before any work and before any lock is taken, and leave the session as it is.
  \<open>MaybeLookupBackendsContext\<close> has no pre-check: its first step is to take \<open>mu\<close>, and
  with a probe service already selected it returns \<open>nil\<close>.
\<close>

theorem cancelled_context_at_entry:
  assumes "ctx_Err ctx = Some err"
  shows "MaybeLookupLocationContext e s ctx = (Some err, s, [])
    \<and> NewProbeServicesClient e s ctx = ((None, Some err), s, [])
    \<and> (selectedProbeService s \<noteq> None \<longrightarrow>
         MaybeLookupBackendsContext e s ctx = (None, s, [Lock_mu, Unlock_mu]))
    \<and> hd (snd (snd (MaybeLookupBackendsContext e s ctx))) = Lock_mu"
  using assms
  by (auto simp: MaybeLookupLocationContext_def NewProbeServicesClient_def
      MaybeLookupBackendsContext_def Let_def split: prod.splits option.splits)

theorem cancelled_context_at_entry_witness:
  "ctx_Err (Context (Some Canceled)) = Some Canceled \<and>
   MaybeLookupLocationContext sample_env sample_session (Context (Some Canceled))
     = (Some Canceled, sample_session, []) \<and>
   NewProbeServicesClient sample_env sample_session (Context (Some Canceled))
     = ((None, Some Canceled), sample_session, []) \<and>
   selectedProbeService (sample_session\<lparr>selectedProbeService := Some sample_service\<rparr>) \<noteq> None \<and>
   MaybeLookupBackendsContext sample_env
       (sample_session\<lparr>selectedProbeService := Some sample_service\<rparr>)
       (Context (Some Canceled))
     = (None, sample_session\<lparr>selectedProbeService := Some sample_service\<rparr>,
        [Lock_mu, Unlock_mu])"
  using cancelled_context_at_entry [of "Context (Some Canceled)" Canceled sample_env sample_session]
    cancelled_context_at_entry [of "Context (Some Canceled)" Canceled sample_env
      "sample_session\<lparr>selectedProbeService := Some sample_service\<rparr>"]
  by simp

subsection \<open>Starting a tunnel\<close>




subsection \<open>Selecting a probe service\<close>

text \<open>\<open>SelectBest\<close> returns nothing exactly when no candidate succeeded.\<close>

lemma SelectBest_None_iff: "SelectBest cs = None \<longleftrightarrow> (\<forall>c\<in>set cs. Err c \<noteq> None)"
proof -
  have "SelectBest cs = None \<longleftrightarrow> filter (\<lambda>c. Err c = None) cs = []"
    by (simp add: SelectBest_def split: list.splits)
  then show ?thesis
    by (simp add: filter_empty_conv)
qed

text \<open>
  With a circumvention tactic at hand and a first pass without a successful candidate,
  \<open>MaybeLookupBackendsContext\<close> sees the tactic applied once and the pass repeated, and
  its result is decided by the second pass.
\<close>

lemma backends_retry_available:
  assumes "selectedProbeService s = None"
    and "circumvented_probe e = Some p"
    and "s1 = s\<lparr>queryProbeServicesCount := queryProbeServicesCount s + 1\<rparr>"
    and "services = getAvailableProbeServicesUnlocked e s1"
    and "\<forall>svc\<in>set services. Err (probe e s1 ctx svc) \<noteq> None"
  shows "take 4 (snd (snd (MaybeLookupBackendsContext e s ctx)))
           = [Lock_mu, BenchmarkPass, ApplyCircumvention, BenchmarkPass]
    \<and> count_list (snd (snd (MaybeLookupBackendsContext e s ctx))) ApplyCircumvention = 1
    \<and> count_list (snd (snd (MaybeLookupBackendsContext e s ctx))) BenchmarkPass = 2
    \<and> (fst (MaybeLookupBackendsContext e s ctx) = Some ErrAllProbeServicesFailed
         \<longleftrightarrow> (\<forall>svc\<in>set services. Err (p s1 ctx svc) \<noteq> None))
    \<and> (fst (MaybeLookupBackendsContext e s ctx) = None
         \<longleftrightarrow> (\<exists>svc\<in>set services. Err (p s1 ctx svc) = None))"
proof -
  have first: "SelectBest (map (probe e s1 ctx) services) = None"
    using assms(5) by (simp add: SelectBest_None_iff)
  have tryall: "TryAll e ctx s1 services
      = (map (p s1 ctx) services, [BenchmarkPass, ApplyCircumvention, BenchmarkPass])"
    using first assms(2) by (simp add: TryAll_def)
  have second: "SelectBest (map (p s1 ctx) services) = None
      \<longleftrightarrow> (\<forall>svc\<in>set services. Err (p s1 ctx svc) \<noteq> None)"
    by (simp add: SelectBest_None_iff)
  show ?thesis
  proof (cases "SelectBest (map (p s1 ctx) services)")
    case None
    then have "MaybeLookupBackendsContext e s ctx
        = (Some ErrAllProbeServicesFailed, s1,
           [Lock_mu, BenchmarkPass, ApplyCircumvention, BenchmarkPass, Unlock_mu])"
      using assms(1) assms(3) assms(4) tryall
      by (simp add: MaybeLookupBackendsContext_def Let_def)
    with None second show ?thesis by auto
  next
    case (Some best)
    then have "MaybeLookupBackendsContext e s ctx
        = (None, s1\<lparr>selectedProbeService := Some (Endpoint best),
                    availableTestHelpers := TestHelpers best\<rparr>,
           [Lock_mu, BenchmarkPass, ApplyCircumvention, BenchmarkPass, Logger_Infof, Unlock_mu])"
      using assms(1) assms(3) assms(4) tryall
      by (simp add: MaybeLookupBackendsContext_def Let_def)
    with Some second show ?thesis by auto
  qed
qed

text \<open>
  Claim C5 says that after a first benchmarking pass without a successful candidate the
  selection of the backend applies a circumvention tactic and repeats the pass, and fails
  only when the second pass fails too. The retry needs a circumvention tactic to be
  available: without one the selection fails with \<open>ErrAllProbeServicesFailed\<close> after
  the first pass.
\<close>

theorem backends_single_pass_counterexample:
  "selectedProbeService sample_session = None \<and>
   circumvented_probe sample_blocked_env = None \<and>
   getAvailableProbeServicesUnlocked sample_blocked_env
       (sample_session\<lparr>queryProbeServicesCount := 1\<rparr>) = [sample_service] \<and>
   Err (probe sample_blocked_env (sample_session\<lparr>queryProbeServicesCount := 1\<rparr>)
          (Context None) sample_service) \<noteq> None \<and>
   MaybeLookupBackendsContext sample_blocked_env sample_session (Context None)
     = (Some ErrAllProbeServicesFailed, sample_session\<lparr>queryProbeServicesCount := 1\<rparr>,
        [Lock_mu, BenchmarkPass, Unlock_mu])"
  by (simp add: MaybeLookupBackendsContext_def TryAll_def SelectBest_def
      getAvailableProbeServicesUnlocked_def sample_candidate_def sample_session_def
      sample_blocked_env_def sample_env_def Let_def)

text \<open>
  Claim C5, amended. When the first benchmarking pass over all candidate probe services
  has no successful candidate and a circumvention tactic is available, the selection of
  the backend applies the tactic once and repeats the pass, and it fails with
  \<open>ErrAllProbeServicesFailed\<close> exactly when the second pass has no successful candidate
  either. When no circumvention tactic is available it fails with
  \<open>ErrAllProbeServicesFailed\<close> after the first pass. The passes are those of \<open>TryAll\<close>,
  taken from the specification; \<open>MaybeLookupBackendsContext\<close> runs them when no probe
  service is selected yet.
\<close>

theorem backends_retry_once:
  assumes "selectedProbeService s = None"
    and "s1 = s\<lparr>queryProbeServicesCount := queryProbeServicesCount s + 1\<rparr>"
    and "services = getAvailableProbeServicesUnlocked e s1"
    and "\<forall>svc\<in>set services. Err (probe e s1 ctx svc) \<noteq> None"
  shows "(\<forall>p. circumvented_probe e = Some p \<longrightarrow>
           take 4 (snd (snd (MaybeLookupBackendsContext e s ctx)))
             = [Lock_mu, BenchmarkPass, ApplyCircumvention, BenchmarkPass]
           \<and> count_list (snd (snd (MaybeLookupBackendsContext e s ctx))) ApplyCircumvention = 1
           \<and> count_list (snd (snd (MaybeLookupBackendsContext e s ctx))) BenchmarkPass = 2
           \<and> (fst (MaybeLookupBackendsContext e s ctx) = Some ErrAllProbeServicesFailed
                \<longleftrightarrow> (\<forall>svc\<in>set services. Err (p s1 ctx svc) \<noteq> None))
           \<and> (fst (MaybeLookupBackendsContext e s ctx) = None
                \<longleftrightarrow> (\<exists>svc\<in>set services. Err (p s1 ctx svc) = None)))
    \<and> (circumvented_probe e = None \<longrightarrow>
           MaybeLookupBackendsContext e s ctx
             = (Some ErrAllProbeServicesFailed, s1, [Lock_mu, BenchmarkPass, Unlock_mu]))"
proof (intro conjI allI impI)
  assume none: "circumvented_probe e = None"
  have first: "SelectBest (map (probe e s1 ctx) services) = None"
    using assms(4) by (simp add: SelectBest_None_iff)
  then have "TryAll e ctx s1 services = (map (probe e s1 ctx) services, [BenchmarkPass])"
    using none by (simp add: TryAll_def)
  then show "MaybeLookupBackendsContext e s ctx
      = (Some ErrAllProbeServicesFailed, s1, [Lock_mu, BenchmarkPass, Unlock_mu])"
    using assms(1) assms(2) assms(3) first
    by (simp add: MaybeLookupBackendsContext_def Let_def)
qed (use backends_retry_available [OF assms(1) _ assms(2) assms(3) assms(4)] in blast)+

theorem backends_retry_once_witness:
  "selectedProbeService sample_session = None \<and>
   circumvented_probe sample_env = Some (\<lambda>s ctx. sample_candidate True) \<and>
   getAvailableProbeServicesUnlocked sample_env (sample_session\<lparr>queryProbeServicesCount := 1\<rparr>)
     = [sample_service] \<and>
   Err (probe sample_env (sample_session\<lparr>queryProbeServicesCount := 1\<rparr>) (Context None)
          sample_service) \<noteq> None \<and>
   take 4 (snd (snd (MaybeLookupBackendsContext sample_env sample_session (Context None))))
     = [Lock_mu, BenchmarkPass, ApplyCircumvention, BenchmarkPass] \<and>
   fst (MaybeLookupBackendsContext sample_env sample_session (Context None)) = None \<and>
   fst (MaybeLookupBackendsContext
          (sample_env\<lparr>circumvented_probe := Some (\<lambda>s ctx. sample_candidate False)\<rparr>)
          sample_session (Context None)) = Some ErrAllProbeServicesFailed \<and>
   circumvented_probe sample_blocked_env = None \<and>
   MaybeLookupBackendsContext sample_blocked_env sample_session (Context None)
     = (Some ErrAllProbeServicesFailed, sample_session\<lparr>queryProbeServicesCount := 1\<rparr>,
        [Lock_mu, BenchmarkPass, Unlock_mu])"
proof -
  have s1: "sample_session\<lparr>queryProbeServicesCount := 1\<rparr>
      = sample_session\<lparr>queryProbeServicesCount := queryProbeServicesCount sample_session + 1\<rparr>"
    by (simp add: sample_session_def)
  have services: "[sample_service]
      = getAvailableProbeServicesUnlocked sample_env (sample_session\<lparr>queryProbeServicesCount := 1\<rparr>)"
    "[sample_service]
      = getAvailableProbeServicesUnlocked
          (sample_env\<lparr>circumvented_probe := Some (\<lambda>s ctx. sample_candidate False)\<rparr>)
          (sample_session\<lparr>queryProbeServicesCount := 1\<rparr>)"
    "[sample_service]
      = getAvailableProbeServicesUnlocked sample_blocked_env
          (sample_session\<lparr>queryProbeServicesCount := 1\<rparr>)"
    by (simp_all add: getAvailableProbeServicesUnlocked_def sample_session_def
        sample_blocked_env_def sample_env_def)
  have fresh: "selectedProbeService sample_session = None"
    by (simp add: sample_session_def)
  have avail: "circumvented_probe sample_env = Some (\<lambda>s ctx. sample_candidate True)"
    "circumvented_probe (sample_env\<lparr>circumvented_probe := Some (\<lambda>s ctx. sample_candidate False)\<rparr>)
       = Some (\<lambda>s ctx. sample_candidate False)"
    "circumvented_probe sample_blocked_env = None"
    by (simp_all add: sample_blocked_env_def sample_env_def)
  have failing: "\<forall>svc\<in>set [sample_service].
      Err (probe sample_env (sample_session\<lparr>queryProbeServicesCount := 1\<rparr>) (Context None) svc)
        \<noteq> None"
    "\<forall>svc\<in>set [sample_service].
      Err (probe (sample_env\<lparr>circumvented_probe := Some (\<lambda>s ctx. sample_candidate False)\<rparr>)
             (sample_session\<lparr>queryProbeServicesCount := 1\<rparr>) (Context None) svc) \<noteq> None"
    "\<forall>svc\<in>set [sample_service].
      Err (probe sample_blocked_env (sample_session\<lparr>queryProbeServicesCount := 1\<rparr>)
             (Context None) svc) \<noteq> None"
    by (simp_all add: sample_blocked_env_def sample_env_def sample_candidate_def)
  show ?thesis
    using fresh avail failing(1) services(1) [symmetric]
      backends_retry_once [OF fresh s1 services(1) failing(1)]
      backends_retry_once [OF fresh s1 services(2) failing(2)]
      backends_retry_once [OF fresh s1 services(3) failing(3)]
    by (simp add: sample_candidate_def)
qed

subsection \<open>The check-in\<close>

text \<open>The fields of a configuration after the seven assignments of \<open>CheckIn\<close>.\<close>

lemma CheckIn_fill_fields:
  "Platform (CheckIn_fill e s c) = (if Platform c = [] then Session_Platform e s else Platform c)"
  "ProbeASN (CheckIn_fill e s c)
     = (if ProbeASN c = [] then Session_ProbeASNString e s else ProbeASN c)"
  "ProbeCC (CheckIn_fill e s c) = (if ProbeCC c = [] then Session_ProbeCC s else ProbeCC c)"
  "RunType (CheckIn_fill e s c) = (if RunType c = [] then ''timed'' else RunType c)"
  "SoftwareName (CheckIn_fill e s c)
     = (if SoftwareName c = [] then Session_SoftwareName s else SoftwareName c)"
  "SoftwareVersion (CheckIn_fill e s c)
     = (if SoftwareVersion c = [] then Session_SoftwareVersion s else SoftwareVersion c)"
  "CategoryCodes (WebConnectivity (CheckIn_fill e s c))
     = (case CategoryCodes (WebConnectivity c) of None \<Rightarrow> Some [] | Some codes \<Rightarrow> Some codes)"
  by (simp_all add: CheckIn_fill_def Let_def split: option.splits)

text \<open>The sample session checks in with the sample configuration: the two lookups and
  the filled configuration, evaluated.\<close>

lemma sample_first_lookup:
  "maybeLookupLocationContext sample_env sample_session (Context None)
     = (None, sample_session\<lparr>location := Some sample_location\<rparr>,
        [Lock_mu, LookupLocation, Unlock_mu])"
  by (simp add: maybeLookupLocationContext_def MaybeLookupLocationContext_def
      lookupLocationContext_def LookupLocationContext_def sample_session_def sample_env_def)

lemma sample_backends:
  "MaybeLookupBackendsContext sample_env (sample_session\<lparr>location := Some sample_location\<rparr>)
       (Context None)
     = (None, sample_selected_session,
        [Lock_mu, BenchmarkPass, ApplyCircumvention, BenchmarkPass, Logger_Infof, Unlock_mu])"
  by (simp add: MaybeLookupBackendsContext_def TryAll_def SelectBest_def
      getAvailableProbeServicesUnlocked_def sample_selected_session_def sample_candidate_def
      sample_session_def sample_env_def Let_def)

lemma sample_client_for_checkin:
  "newProbeServicesClientForCheckIn sample_env
       (sample_session\<lparr>location := Some sample_location\<rparr>) (Context None)
     = ((Some sample_client, None), sample_selected_session,
        [Lock_mu, BenchmarkPass, ApplyCircumvention, BenchmarkPass, Logger_Infof, Unlock_mu,
         Lock_mu, Unlock_mu, NewClient])"
proof -
  have hooks: "testNewProbeServicesClientForCheckIn
                 (sample_session\<lparr>location := Some sample_location\<rparr>) = None"
    "testMaybeLookupBackendsContext (sample_session\<lparr>location := Some sample_location\<rparr>) = None"
    "testMaybeLookupLocationContext sample_selected_session = None"
    "location sample_selected_session \<noteq> None"
    "selectedProbeService sample_selected_session = Some sample_service"
    "\<not> selectedProbeServiceHook sample_selected_session"
    by (simp_all add: sample_session_def sample_selected_session_def)
  have newc: "probeservices_NewClient sample_env sample_selected_session sample_service
                = (Some sample_client, None)"
    by (simp add: sample_env_def)
  show ?thesis
    by (simp add: newProbeServicesClientForCheckIn_def NewProbeServicesClient_def
        maybeLookupBackendsContext_def maybeLookupLocationContext_def
        MaybeLookupLocationContext_def sample_backends hooks newc)
qed

lemma sample_fill:
  "CheckIn_fill sample_env sample_selected_session sample_config
     = \<lparr>Platform = ''linux'', ProbeASN = ''AS30722'', ProbeCC = ''US'', RunType = ''timed'',
        SoftwareName = ''ooniprobe-android'', SoftwareVersion = ''0.1.0-dev'',
        WebConnectivity = \<lparr>CategoryCodes = Some []\<rparr>\<rparr>"
  by (simp add: CheckIn_fill_def Let_def sample_config_def sample_selected_session_def
      sample_session_def sample_env_def sample_location_def Session_Platform_def
      Session_ProbeASNString_def Session_ProbeASN_def Session_ProbeCC_def
      Session_SoftwareName_def Session_SoftwareVersion_def decimal.simps)





text \<open>
  Claim C4. For a configuration that is not \<open>nil\<close>, \<open>CheckIn\<close> fills exactly the empty
  fields before it forwards the configuration to the probe-services client: \<open>Platform\<close>
  from \<open>Session.Platform()\<close>, \<open>ProbeASN\<close> as \<open>AS\<close> followed by the decimal ASN,
  \<open>ProbeCC\<close> from \<open>Session.ProbeCC()\<close>, \<open>RunType\<close> as \<open>timed\<close>, the software name
  and version from the session, and \<open>WebConnectivity.CategoryCodes\<close> as the empty list
  when it is \<open>nil\<close>; a field that is not empty keeps its value. The client is reached
  when the location lookup and the construction of the client succeed.
\<close>

theorem CheckIn_fills_empty_fields:
  assumes "maybeLookupLocationContext e s ctx = (None, s1, t1)"
    and "newProbeServicesClientForCheckIn e s1 ctx = ((Some cli, None), s2, t2)"
  shows "CheckIn e s ctx (Some c)
           = (cli ctx (CheckIn_fill e s2 c), s2, Some (CheckIn_fill e s2 c),
              t1 @ t2 @ [ClientCheckIn])
    \<and> Platform (CheckIn_fill e s2 c)
         = (if Platform c = [] then Session_Platform e s2 else Platform c)
    \<and> ProbeASN (CheckIn_fill e s2 c)
         = (if ProbeASN c = [] then ''AS'' @ decimal (Session_ProbeASN e s2) else ProbeASN c)
    \<and> ProbeCC (CheckIn_fill e s2 c)
         = (if ProbeCC c = [] then Session_ProbeCC s2 else ProbeCC c)
    \<and> RunType (CheckIn_fill e s2 c) = (if RunType c = [] then ''timed'' else RunType c)
    \<and> SoftwareName (CheckIn_fill e s2 c)
         = (if SoftwareName c = [] then softwareName s2 else SoftwareName c)
    \<and> SoftwareVersion (CheckIn_fill e s2 c)
         = (if SoftwareVersion c = [] then softwareVersion s2 else SoftwareVersion c)
    \<and> CategoryCodes (WebConnectivity (CheckIn_fill e s2 c))
         = (case CategoryCodes (WebConnectivity c) of
              None \<Rightarrow> Some [] | Some codes \<Rightarrow> Some codes)"
proof -
  have "CheckIn e s ctx (Some c)
      = (cli ctx (CheckIn_fill e s2 c), s2, Some (CheckIn_fill e s2 c),
         t1 @ t2 @ [ClientCheckIn])"
    using assms by (simp add: CheckIn_def Let_def)
  then show ?thesis
    by (simp add: CheckIn_fill_fields Session_ProbeASNString_def Session_SoftwareName_def
        Session_SoftwareVersion_def)
qed

theorem CheckIn_fills_empty_fields_witness:
  "maybeLookupLocationContext sample_env sample_session (Context None)
     = (None, sample_session\<lparr>location := Some sample_location\<rparr>,
        [Lock_mu, LookupLocation, Unlock_mu]) \<and>
   fst (newProbeServicesClientForCheckIn sample_env
          (sample_session\<lparr>location := Some sample_location\<rparr>) (Context None))
     = (Some sample_client, None) \<and>
   fst (snd (snd (CheckIn sample_env sample_session (Context None) (Some sample_config))))
     = Some \<lparr>Platform = ''linux'', ProbeASN = ''AS30722'', ProbeCC = ''US'',
             RunType = ''timed'', SoftwareName = ''ooniprobe-android'',
             SoftwareVersion = ''0.1.0-dev'',
             WebConnectivity = \<lparr>CategoryCodes = Some []\<rparr>\<rparr>"
  using CheckIn_fills_empty_fields [OF sample_first_lookup sample_client_for_checkin, of sample_config]
  by (simp add: sample_first_lookup sample_client_for_checkin sample_fill)



section \<open>Properties of the tactics policies\<close>




text \<open>
  Claim C2. For a domain without bridges and any port, \<open>LookupTactics\<close> of the DNS policy
  emits no tactic when \<open>LookupHost\<close> fails, and when \<open>LookupHost\<close> succeeds it emits one
  tactic for each resolved address, in order, with that address, the requested port, no
  initial delay, and the requested domain as SNI and as name to verify. The result is a
  stream and nothing else, so a failure shows as the empty stream only. The DNS policy
  does this for every domain; for a domain that is neither bridged nor a test helper the
  bridges policy around it emits the same stream.
\<close>

theorem dns_policy_tactics:
  "(\<forall>err. resolver domain = Inl err \<longrightarrow>
        LookupTactics T (dnsPolicy resolver) domain port = []) \<and>
   (\<forall>addrs. resolver domain = Inr addrs \<longrightarrow>
        LookupTactics T (dnsPolicy resolver) domain port
          = map (\<lambda>addr. \<lparr>Address = addr, InitialDelay = 0, Port = port, SNI = domain,
                         VerifyHostname = domain\<rparr>) addrs) \<and>
   (domain \<noteq> ''api.ooni.io'' \<and> domain \<notin> set (testHelpersDomains T) \<longrightarrow>
        LookupTactics T (bridgesPolicy (dnsPolicy resolver)) domain port
          = LookupTactics T (dnsPolicy resolver) domain port)"
  by simp

theorem dns_policy_tactics_witness:
  "sample_resolver ''www.example.com'' = Inr [''93.184.216.34''] \<and>
   ''www.example.com'' \<noteq> ''api.ooni.io'' \<and>
   ''www.example.com'' \<notin> set (testHelpersDomains sample_tables) \<and>
   LookupTactics sample_tables (bridgesPolicy (dnsPolicy sample_resolver)) ''www.example.com''
       ''443''
     = [\<lparr>Address = ''93.184.216.34'', InitialDelay = 0, Port = ''443'',
         SNI = ''www.example.com'', VerifyHostname = ''www.example.com''\<rparr>] \<and>
   sample_resolver ''www.example.net'' = Inl (OtherError ''mocked error'') \<and>
   ''www.example.net'' \<noteq> ''api.ooni.io'' \<and>
   ''www.example.net'' \<notin> set (testHelpersDomains sample_tables) \<and>
   LookupTactics sample_tables (bridgesPolicy (dnsPolicy sample_resolver)) ''www.example.net''
       ''443'' = []"
proof -
  have ok: "sample_resolver ''www.example.com'' = Inr [''93.184.216.34'']"
    and failing: "sample_resolver ''www.example.net'' = Inl (OtherError ''mocked error'')"
    by (simp_all add: sample_resolver_def)
  have other: "''www.example.com'' \<notin> set (testHelpersDomains sample_tables)"
    "''www.example.net'' \<notin> set (testHelpersDomains sample_tables)"
    by (simp_all add: sample_tables_def)
  show ?thesis
    using ok failing other
      dns_policy_tactics [of sample_resolver "''www.example.com''" sample_tables "''443''"]
      dns_policy_tactics [of sample_resolver "''www.example.net''" sample_tables "''443''"]
    by simp
qed

end
